theory Spec2Isabelle
  imports Main "HOL-Library.Sublist"
begin

section \<open>The OpenAccess client (src/OpenAccess/openaccess.py)\<close>

text \<open>
  A shallow embedding of the methods of class \<open>OpenAccess\<close>. Python values that travel
  through the methods (decoded JSON, the dictionaries the projectors build, header values)
  are values of \<open>pyval\<close>; a raised exception is the \<open>Inl\<close> branch of a sum; the object
  is a record that every method takes and returns; the network is a parameter that
  answers each request from the requests issued so far.

  Numbers that \<open>json.loads\<close> decodes to a float are not represented in \<open>pyval\<close>.
\<close>

subsection \<open>Python values and exceptions\<close>

datatype pyval =
    PNone
  | PBool bool
  | PInt int
  | PStr string
  | PList "pyval list"
  | PDict "(string \<times> pyval) list"

datatype error =
    RequestException string
  | UnicodeDecodeError
  | JSONDecodeError
  | KeyError string
  | TypeError
  | IndexError
  | AttributeError string

text \<open>Sequencing of two steps, the first of which may raise.\<close>

definition and_then :: "error + 'a \<Rightarrow> ('a \<Rightarrow> error + 'b) \<Rightarrow> error + 'b" where
  "and_then r f = (case r of Inl e \<Rightarrow> Inl e | Inr v \<Rightarrow> f v)"

text \<open>
  \<open>v[k]\<close> for a string key: a dictionary looks the key up and raises \<open>KeyError\<close> when it
  is absent; no other value of \<open>pyval\<close> can be subscripted by a string.
\<close>

fun py_getitem :: "pyval \<Rightarrow> string \<Rightarrow> error + pyval" where
  "py_getitem (PDict kvs) k =
     (case map_of kvs k of None \<Rightarrow> Inl (KeyError k) | Some v \<Rightarrow> Inr v)"
| "py_getitem _ k = Inl TypeError"

text \<open>
  \<open>for jo in v\<close>: a list yields its elements, a dictionary its keys, a string its
  characters; the other values are not iterable.
\<close>

fun py_iter :: "pyval \<Rightarrow> error + pyval list" where
  "py_iter (PList xs) = Inr xs"
| "py_iter (PDict kvs) = Inr (map PStr (remdups (map fst kvs)))"
| "py_iter (PStr s) = Inr (map (\<lambda>c. PStr [c]) s)"
| "py_iter _ = Inl TypeError"

text \<open>
  \<open>v == k\<close> for an integer constant \<open>k\<close>. \<open>bool\<close> is a subclass of \<open>int\<close> in Python, so
  \<open>True == 1\<close> and \<open>False == 0\<close>; \<open>v == True\<close> is \<open>py_eq_int v 1\<close>.
\<close>

fun py_eq_int :: "pyval \<Rightarrow> int \<Rightarrow> bool" where
  "py_eq_int (PInt n) k = (n = k)"
| "py_eq_int (PBool b) k = ((if b then 1 else 0) = k)"
| "py_eq_int _ k = False"

text \<open>
  The value of \<open>v\<close> where an integer is required (\<open>pageCount + 1\<close> as the bound of a
  \<open>range\<close>): an \<open>int\<close> or a \<open>bool\<close>, \<open>TypeError\<close> for every other value.
\<close>

fun py_int :: "pyval \<Rightarrow> error + int" where
  "py_int (PInt n) = Inr n"
| "py_int (PBool b) = Inr (if b then 1 else 0)"
| "py_int _ = Inl TypeError"

subsection \<open>Rendering integers and formatting strings\<close>

definition digit :: "nat \<Rightarrow> char" where
  "digit d = char_of (48 + d)"

function str_nat :: "nat \<Rightarrow> string" where
  "str_nat n = (if n < 10 then [digit n] else str_nat (n div 10) @ [digit (n mod 10)])"
  by pat_completeness auto
termination
  by (relation "measure (\<lambda>n. n)") auto

declare str_nat.simps [simp del]

text \<open>\<open>str(i)\<close> for an integer, as the f-strings of the source render it.\<close>

definition str_int :: "int \<Rightarrow> string" where
  "str_int i = (if i < 0 then CHR ''-'' # str_nat (nat (- i)) else str_nat (nat i))"

text \<open>
  \<open>template.format(*args)\<close> for templates whose only fields are the automatically
  numbered \<open>{}\<close>: each field takes the next argument, and a field with no argument left
  raises \<open>IndexError\<close>.
\<close>

fun str_format :: "string \<Rightarrow> string list \<Rightarrow> error + string" where
  "str_format [] args = Inr []"
| "str_format [c] args = Inr [c]"
| "str_format (c # d # rest) args =
     (if c = CHR ''{'' \<and> d = CHR ''}''
      then (case args of
              [] \<Rightarrow> Inl IndexError
            | a # as \<Rightarrow> and_then (str_format rest as) (\<lambda>s. Inr (a @ s)))
      else and_then (str_format (d # rest) args) (\<lambda>s. Inr (c # s)))"

subsection \<open>Requests, responses and the environment\<close>

datatype http_method = GET | POST

text \<open>
  A request as the requests library prepares it for a call of the class: its headers are
  those that \<open>merge_setting\<close> (below) makes of the headers the call works with. The headers
  that the library adds by itself to the fresh session of \<open>requests.post\<close> (User-Agent,
  Accept-Encoding, Connection) are not listed.
\<close>

record request =
  meth :: http_method
  url :: string
  req_headers :: "string \<rightharpoonup> pyval"
  verify_tls :: bool
  json_body :: "pyval option"

record response =
  status_code :: int
  reason :: string
  content :: string
  text_str :: string

text \<open>
  What issuing a request gives: a response, or an exception of the family
  \<open>requests.exceptions.RequestException\<close> with its message. \<open>InvalidHeader\<close> belongs to
  the family: the library raises it, before anything is sent, for a prepared request with
  a header value that is not a string, or that is a string which its pattern for header
  values rejects.
\<close>

datatype outcome = Raised string | Response response

text \<open>
  \<open>response.ok\<close> of the requests library: false exactly for the status codes on which
  \<open>raise_for_status\<close> raises, 400 to 599.
\<close>

definition ok :: "response \<Rightarrow> bool" where
  "ok r = (\<not> (400 \<le> status_code r \<and> status_code r < 600))"

text \<open>
  \<open>merge_setting(request_setting, session_setting)\<close> of \<open>requests.sessions\<close>, by which the
  library combines the headers of a call with those of the session that sends it: the
  entries of the call win over those of the session, and every entry whose value is
  \<open>None\<close> is removed.
\<close>

definition merge_setting ::
  "(string \<rightharpoonup> pyval) \<Rightarrow> (string \<rightharpoonup> pyval) \<Rightarrow> (string \<rightharpoonup> pyval)" where
  "merge_setting request_setting session_setting =
     (\<lambda>k. case (session_setting ++ request_setting) k of
            None \<Rightarrow> None
          | Some v \<Rightarrow> (if v = PNone then None else Some v))"

text \<open>
  The parts the class takes from outside: the constants it reads from the \<open>.env\<close>
  configuration, the decoders \<open>bytes.decode('utf-8')\<close> and \<open>json.loads\<close>, and \<open>send\<close>: the
  last steps of the library (the check of the header values) and the network, which
  answer a prepared request given the requests issued before it.
\<close>

record env =
  API_URL :: string
  DEFAULT_PAGE_SIZE :: string
  SUCCESS :: string
  ERROR :: string
  API_VERSION :: string
  APPLICATION_ID :: string
  decode_utf8 :: "string \<Rightarrow> error + string"
  json_loads :: "string \<Rightarrow> error + pyval"
  send :: "request list \<Rightarrow> request \<Rightarrow> outcome"

subsection \<open>The object\<close>

text \<open>
  The fields of an \<open>OpenAccess\<close> object and of its \<open>requests.Session\<close> (\<open>self.client\<close>:
  \<open>headers\<close>, \<open>verify\<close>, \<open>base_url\<close>). \<open>session_token\<close> is \<open>None\<close> while the attribute
  has not been assigned. \<open>sent\<close> is the trace of the requests prepared for the calls of
  the object, oldest first. The headers of a session compare their names without regard to case; the
  class uses the four names Application-Id, Content-Type, Accept and Session-Token, each
  in one spelling, so the names are the keys of a map.
\<close>

record OpenAccess =
  base_url :: string
  headers :: "string \<rightharpoonup> pyval"
  verify :: bool
  client_base_url :: string
  panels :: "pyval list"
  session_token :: "pyval option"
  sent :: "request list"

definition init :: "env \<Rightarrow> OpenAccess" where
  "init cfg =
     \<lparr> base_url = API_URL cfg,
       headers = [''Application-Id'' \<mapsto> PStr (APPLICATION_ID cfg),
                  ''Content-Type'' \<mapsto> PStr ''application/json'',
                  ''Accept'' \<mapsto> PStr ''application/json''],
       verify = False,
       client_base_url = API_URL cfg,
       panels = [],
       session_token = None,
       sent = [] \<rparr>"

text \<open>Issuing a request: the network answers it, and the trace grows by it.\<close>

definition issue :: "env \<Rightarrow> request \<Rightarrow> OpenAccess \<Rightarrow> outcome \<times> OpenAccess" where
  "issue cfg rq self = (send cfg (sent self) rq, self\<lparr>sent := sent self @ [rq]\<rparr>)"

text \<open>
  \<open>self.client.get(url)\<close>: a GET that passes no headers of its own and is sent by the
  session \<open>self.client\<close>, so its headers are the session's current headers, merged.
\<close>

definition get_request :: "OpenAccess \<Rightarrow> string \<Rightarrow> request" where
  "get_request self u =
     \<lparr> meth = GET, url = u, req_headers = merge_setting Map.empty (headers self),
       verify_tls = verify self, json_body = None \<rparr>"

definition client_get :: "env \<Rightarrow> string \<Rightarrow> OpenAccess \<Rightarrow> (error + response) \<times> OpenAccess" where
  "client_get cfg u self =
     (case issue cfg (get_request self u) self of
        (Raised m, self') \<Rightarrow> (Inl (RequestException m), self')
      | (Response r, self') \<Rightarrow> (Inr r, self'))"

subsection \<open>Decoding, endpoints and projections\<close>

definition parse_response :: "env \<Rightarrow> response \<Rightarrow> error + pyval" where
  "parse_response cfg r = and_then (decode_utf8 cfg (content r)) (json_loads cfg)"

definition build_uri_with_version :: "OpenAccess \<Rightarrow> string \<Rightarrow> string \<Rightarrow> error + string" where
  "build_uri_with_version self method_name version =
     str_format ''{}{}?version={}'' [base_url self, method_name, version]"

text \<open>\<open>jo['property_value_map'][k]\<close>.\<close>

definition property_value :: "pyval \<Rightarrow> string \<Rightarrow> error + pyval" where
  "property_value jo k = and_then (py_getitem jo ''property_value_map'') (\<lambda>m. py_getitem m k)"

definition panel_of :: "pyval \<Rightarrow> error + pyval" where
  "panel_of jo =
     and_then (property_value jo ''ID'') (\<lambda>i.
     and_then (property_value jo ''Name'') (\<lambda>n.
     and_then (property_value jo ''IsOnline'') (\<lambda>b.
     and_then (property_value jo ''PanelType'') (\<lambda>t.
       Inr (PDict [(''id'', i), (''name'', n), (''status'', PBool (py_eq_int b 1)),
                   (''type'', t)])))))"

text \<open>The body of a \<open>for jo in ...: xs.append(f(jo))\<close> loop; the first exception ends it.\<close>

fun append_each :: "(pyval \<Rightarrow> error + pyval) \<Rightarrow> pyval list \<Rightarrow> pyval list \<Rightarrow> error + pyval list" where
  "append_each f acc [] = Inr acc"
| "append_each f acc (jo # jos) = and_then (f jo) (\<lambda>x. append_each f (acc @ [x]) jos)"

definition get_panels_from_result :: "pyval \<Rightarrow> error + pyval list" where
  "get_panels_from_result result =
     and_then (py_getitem result ''item_list'') (\<lambda>il.
     and_then (py_iter il) (\<lambda>jos. append_each panel_of [] jos))"

definition reader_of :: "pyval \<Rightarrow> error + pyval" where
  "reader_of jo =
     and_then (property_value jo ''PanelID'') (\<lambda>p.
     and_then (property_value jo ''ReaderID'') (\<lambda>i.
     and_then (property_value jo ''Name'') (\<lambda>n.
     and_then (property_value jo ''ControlType'') (\<lambda>t.
     and_then (property_value jo ''HostName'') (\<lambda>h.
       Inr (PDict [(''panelId'', p), (''id'', i), (''name'', n), (''type'', t),
                   (''hostName'', h)]))))))"

definition get_readers_from_result :: "pyval \<Rightarrow> error + pyval list" where
  "get_readers_from_result result =
     and_then (py_getitem result ''item_list'') (\<lambda>il.
     and_then (py_iter il) (\<lambda>jos. append_each reader_of [] jos))"

subsection \<open>Queries\<close>

definition request_instances ::
  "env \<Rightarrow> string \<Rightarrow> int \<Rightarrow> int \<Rightarrow> OpenAccess \<Rightarrow> (error + pyval) \<times> OpenAccess" where
  "request_instances cfg type_name page_num panel_id self =
     (case build_uri_with_version self ''instances'' ''1.0'' of
        Inl e \<Rightarrow> (Inl e, self)
      | Inr u \<Rightarrow>
          (let request0 = u @ ''&type_name='' @ type_name @ ''&page_number='' @ str_int page_num
                 @ ''&page_size='' @ DEFAULT_PAGE_SIZE cfg @ ''&order_by=name'';
               request1 = (if panel_id \<noteq> - 1
                           then request0 @ ''&filter=panelid = '' @ str_int panel_id
                           else request0)
           in case client_get cfg request1 self of
                (Inl e, self') \<Rightarrow> (Inl e, self')
              | (Inr r, self') \<Rightarrow> (parse_response cfg r, self')))"


subsection \<open>Signing in\<close>

definition user_of :: "string \<Rightarrow> string \<Rightarrow> string \<Rightarrow> pyval" where
  "user_of username password directory_id =
     PDict [(''user_name'', PStr username), (''password'', PStr password),
            (''directory_id'', PStr directory_id)]"

text \<open>
  \<open>requests.post(url, json=user, verify=False, headers=self.client.headers)\<close>: a POST that
  passes the session's current headers as its own and is sent by a fresh session of the
  library, whose default headers are left out here.
\<close>

definition sign_in_request :: "OpenAccess \<Rightarrow> string \<Rightarrow> pyval \<Rightarrow> request" where
  "sign_in_request self u user =
     \<lparr> meth = POST, url = u, req_headers = merge_setting (headers self) Map.empty,
       verify_tls = False, json_body = Some user \<rparr>"

definition connection_message :: string where
  "connection_message =
     ''Connection was unexpectedly closed. Make sure you don't have anything other than OpenAccess running on port 8080. Message: ''"

definition server_error_message :: string where
  "server_error_message =
     ''A server error occurred during your request. If the status code is available, it is shown below'' @ [CHR 0x0A]"

text \<open>
  Only the \<open>requests.post\<close> call is guarded by \<open>except RequestException\<close>; decoding the
  body and reading \<open>session_token\<close> happen after the \<open>try\<close> statement.
\<close>

definition sign_in ::
  "env \<Rightarrow> string \<Rightarrow> string \<Rightarrow> string \<Rightarrow> OpenAccess \<Rightarrow> (error + string) \<times> OpenAccess" where
  "sign_in cfg username password directory_id self =
     (let user = user_of username password directory_id
      in case build_uri_with_version self ''authentication'' ''1.0'' of
           Inl e \<Rightarrow> (Inl e, self)
         | Inr u \<Rightarrow>
             (case issue cfg (sign_in_request self u user) self of
                (Raised m, self') \<Rightarrow> (Inr (connection_message @ m), self')
              | (Response r, self') \<Rightarrow>
                  (if ok r
                   then (case parse_response cfg r of
                           Inl e \<Rightarrow> (Inl e, self')
                         | Inr result \<Rightarrow>
                             (case py_getitem result ''session_token'' of
                                Inl e \<Rightarrow> (Inl e, self')
                              | Inr tok \<Rightarrow>
                                  (Inr (SUCCESS cfg),
                                   self'\<lparr>session_token := Some tok,
                                         headers := (headers self')(''Session-Token'' \<mapsto> tok)\<rparr>)))
                   else (Inr (server_error_message @ str_int (status_code r) @ '': '' @ reason r),
                         self'))))"

subsection \<open>Directories\<close>

definition directory_of :: "pyval \<Rightarrow> error + pyval" where
  "directory_of directory =
     and_then (property_value directory ''ID'') (\<lambda>i.
     and_then (property_value directory ''Name'') (\<lambda>n.
       Inr (PDict [(''Id'', i), (''Name'', n)])))"

definition get_directories :: "env \<Rightarrow> OpenAccess \<Rightarrow> (error + pyval) \<times> OpenAccess" where
  "get_directories cfg self =
     (case build_uri_with_version self ''directories'' ''1.0'' of
        Inl e \<Rightarrow> (Inl e, self)
      | Inr u \<Rightarrow>
          (case client_get cfg u self of
             (Inl e, self') \<Rightarrow> (Inl e, self')
           | (Inr r, self') \<Rightarrow>
               (if status_code r = 200
                then (and_then (json_loads cfg (text_str r)) (\<lambda>result.
                      and_then (py_getitem result ''item_list'') (\<lambda>il.
                      and_then (py_iter il) (\<lambda>ds.
                      and_then (append_each directory_of [] ds) (\<lambda>directories.
                        Inr (PList directories))))), self')
                else (Inr PNone, self'))))"

subsection \<open>Fetching every page\<close>

text \<open>
  The loops \<open>for i in range(2, pageCount + 1)\<close>, run over the list of the values of \<open>i\<close>.
  The panels are collected in the field \<open>panels\<close>, the readers in a local list.
\<close>

fun panels_loop :: "env \<Rightarrow> int list \<Rightarrow> OpenAccess \<Rightarrow> (error + unit) \<times> OpenAccess" where
  "panels_loop cfg [] self = (Inr (), self)"
| "panels_loop cfg (i # is) self =
     (case request_instances cfg ''Lnl_Panel'' i (- 1) self of
        (Inl e, self1) \<Rightarrow> (Inl e, self1)
      | (Inr result, self1) \<Rightarrow>
          (case get_panels_from_result result of
             Inl e \<Rightarrow> (Inl e, self1)
           | Inr ps \<Rightarrow> panels_loop cfg is (self1\<lparr>panels := panels self1 @ ps\<rparr>)))"

definition retrieve_panels :: "env \<Rightarrow> OpenAccess \<Rightarrow> (error + pyval list) \<times> OpenAccess" where
  "retrieve_panels cfg self =
     (case request_instances cfg ''Lnl_Panel'' 1 (- 1) (self\<lparr>panels := []\<rparr>) of
        (Inl e, self1) \<Rightarrow> (Inl e, self1)
      | (Inr result, self1) \<Rightarrow>
          (case py_getitem result ''total_pages'' of
             Inl e \<Rightarrow> (Inl e, self1)
           | Inr pageCount \<Rightarrow>
               (case get_panels_from_result result of
                  Inl e \<Rightarrow> (Inl e, self1)
                | Inr ps \<Rightarrow>
                    (let self2 = self1\<lparr>panels := panels self1 @ ps\<rparr>
                     in case py_int pageCount of
                          Inl e \<Rightarrow> (Inl e, self2)
                        | Inr n \<Rightarrow>
                            (case panels_loop cfg [2..n] self2 of
                               (Inl e, self3) \<Rightarrow> (Inl e, self3)
                             | (Inr _, self3) \<Rightarrow> (Inr (panels self3), self3))))))"

definition get_panels :: "OpenAccess \<Rightarrow> pyval list" where
  "get_panels self = panels self"

fun readers_loop ::
  "env \<Rightarrow> int \<Rightarrow> int list \<Rightarrow> pyval list \<Rightarrow> OpenAccess \<Rightarrow> (error + pyval list) \<times> OpenAccess" where
  "readers_loop cfg panelId [] readers self = (Inr readers, self)"
| "readers_loop cfg panelId (i # is) readers self =
     (case request_instances cfg ''Lnl_Reader'' i panelId self of
        (Inl e, self1) \<Rightarrow> (Inl e, self1)
      | (Inr result, self1) \<Rightarrow>
          (case get_readers_from_result result of
             Inl e \<Rightarrow> (Inl e, self1)
           | Inr rs \<Rightarrow> readers_loop cfg panelId is (readers @ rs) self1))"

definition retrieve_readers :: "env \<Rightarrow> int \<Rightarrow> OpenAccess \<Rightarrow> (error + pyval list) \<times> OpenAccess" where
  "retrieve_readers cfg panelId self =
     (case request_instances cfg ''Lnl_Reader'' 1 panelId self of
        (Inl e, self1) \<Rightarrow> (Inl e, self1)
      | (Inr result, self1) \<Rightarrow>
          (case py_getitem result ''count'' of
             Inl e \<Rightarrow> (Inl e, self1)
           | Inr c \<Rightarrow>
               (if py_eq_int c 0 then (Inr [], self1)
                else (case py_getitem result ''total_pages'' of
                        Inl e \<Rightarrow> (Inl e, self1)
                      | Inr pageCount \<Rightarrow>
                          (case get_readers_from_result result of
                             Inl e \<Rightarrow> (Inl e, self1)
                           | Inr rs \<Rightarrow>
                               (case py_int pageCount of
                                  Inl e \<Rightarrow> (Inl e, self1)
                                | Inr n \<Rightarrow> readers_loop cfg panelId [2..n] rs self1))))))"

subsection \<open>Opening a door\<close>

text \<open>A reader as \<open>OpenDoor\<close> reads it: an object with the attributes \<open>panelId\<close> and \<open>id\<close>.\<close>

record reader =
  panelId :: int
  id_reader :: int

text \<open>
  The attributes of \<open>self.client\<close>: those of a \<open>requests.Session\<close>, and \<open>base_url\<close>, which
  \<open>__init__\<close> assigns. Reading any other attribute raises \<open>AttributeError\<close>.
\<close>

definition client_attributes :: "string list" where
  "client_attributes =
     [''headers'', ''auth'', ''proxies'', ''hooks'', ''params'', ''stream'', ''verify'',
      ''cert'', ''max_redirects'', ''trust_env'', ''cookies'', ''adapters'', ''base_url'',
      ''prepare_request'', ''request'', ''get'', ''options'', ''head'', ''post'', ''put'',
      ''patch'', ''delete'', ''send'', ''merge_environment_settings'', ''get_adapter'',
      ''close'', ''mount'', ''get_redirect_target'', ''should_strip_auth'',
      ''resolve_redirects'', ''rebuild_auth'', ''rebuild_proxies'', ''rebuild_method'']"

definition client_getattr :: "string \<Rightarrow> error + unit" where
  "client_getattr name =
     (if name \<in> set client_attributes then Inr () else Inl (AttributeError name))"

text \<open>
  A call of \<open>build_uri_with_version\<close> with the given positional arguments: the method
  takes exactly \<open>method_name\<close> and \<open>version\<close>, and any other number raises \<open>TypeError\<close>.
\<close>

definition call_build_uri_with_version :: "OpenAccess \<Rightarrow> string list \<Rightarrow> error + string" where
  "call_build_uri_with_version self args =
     (case args of
        [method_name, version] \<Rightarrow> build_uri_with_version self method_name version
      | _ \<Rightarrow> Inl TypeError)"

definition execute_envelope :: "reader \<Rightarrow> pyval" where
  "execute_envelope rd =
     (let prop_value = PDict [(''PanelID'', PStr (str_int (panelId rd))),
                              (''ReaderID'', PStr (str_int (id_reader rd)))];
          parameter_value = PDict []
      in PDict [(''method_name'', PStr ''OpenDoor''), (''type_name'', PStr ''Lnl_Reader''),
                (''property_value_map'', prop_value),
                (''in_parameter_value_map'', parameter_value)])"

text \<open>
  The call \<open>self.client.post_json(self.build_uri_with_version("execute_method"), em)\<close>
  evaluates the attribute \<open>post_json\<close> first, then the argument, then sends.
\<close>

definition OpenDoor :: "env \<Rightarrow> reader \<Rightarrow> OpenAccess \<Rightarrow> (error + string) \<times> OpenAccess" where
  "OpenDoor cfg rd self =
     (let em = execute_envelope rd
      in case client_getattr ''post_json'' of
           Inl e \<Rightarrow> (Inl e, self)
         | Inr _ \<Rightarrow>
             (case call_build_uri_with_version self [''execute_method''] of
                Inl e \<Rightarrow> (Inl e, self)
              | Inr u \<Rightarrow>
                  (case issue cfg \<lparr> meth = POST, url = u,
                                    req_headers = merge_setting Map.empty (headers self),
                                    verify_tls = verify self, json_body = Some em \<rparr> self of
                     (Raised m, self') \<Rightarrow> (Inl (RequestException m), self')
                   | (Response r, self') \<Rightarrow>
                       (if status_code r = 200 then (Inr (SUCCESS cfg), self')
                        else (Inr (server_error_message @ str_int (status_code r) @ '': ''
                                   @ text_str r), self')))))"

subsection \<open>Requests the methods issue\<close>

text \<open>
  Names for the requests that the statements below speak about: the URL that
  \<open>request_instances\<close> assembles, and a network that serves given responses to given
  requests in order.
\<close>

definition instances_uri :: "env \<Rightarrow> OpenAccess \<Rightarrow> string \<Rightarrow> int \<Rightarrow> int \<Rightarrow> string" where
  "instances_uri cfg self type_name panel_id page_num =
     base_url self @ ''instances?version=1.0'' @ ''&type_name='' @ type_name
       @ ''&page_number='' @ str_int page_num @ ''&page_size='' @ DEFAULT_PAGE_SIZE cfg
       @ ''&order_by=name''
       @ (if panel_id \<noteq> - 1 then ''&filter=panelid = '' @ str_int panel_id else [])"

definition instances_request :: "env \<Rightarrow> OpenAccess \<Rightarrow> string \<Rightarrow> int \<Rightarrow> int \<Rightarrow> request" where
  "instances_request cfg self type_name panel_id page_num =
     get_request self (instances_uri cfg self type_name panel_id page_num)"

definition authentication_request :: "OpenAccess \<Rightarrow> string \<Rightarrow> string \<Rightarrow> string \<Rightarrow> request" where
  "authentication_request self username password directory_id =
     sign_in_request self (base_url self @ ''authentication?version=1.0'')
       (user_of username password directory_id)"

definition directories_request :: "OpenAccess \<Rightarrow> request" where
  "directories_request self = get_request self (base_url self @ ''directories?version=1.0'')"

fun serves :: "env \<Rightarrow> request list \<Rightarrow> request list \<Rightarrow> response list \<Rightarrow> bool" where
  "serves cfg hist [] [] = True"
| "serves cfg hist (rq # rqs) (r # rs) =
     (send cfg hist rq = Response r \<and> serves cfg (hist @ [rq]) rqs rs)"
| "serves cfg hist _ _ = False"



subsection \<open>Stub environments\<close>

definition reply :: "int \<Rightarrow> string \<Rightarrow> string \<Rightarrow> response" where
  "reply code why body = \<lparr> status_code = code, reason = why, content = body, text_str = body \<rparr>"

text \<open>A network that answers the \<open>k\<close>-th request with the \<open>k\<close>-th of the given outcomes.\<close>

definition in_turn :: "outcome list \<Rightarrow> request list \<Rightarrow> request \<Rightarrow> outcome" where
  "in_turn outs hist rq =
     (if length hist < length outs then outs ! length hist else Raised ''refused'')"

definition item :: "(string \<times> pyval) list \<Rightarrow> pyval" where
  "item pvm = PDict [(''property_value_map'', PDict pvm)]"

definition lobby :: pyval where
  "lobby = item [(''ID'', PStr ''1''), (''Name'', PStr ''Lobby''), (''IsOnline'', PBool True),
                 (''PanelType'', PStr ''X'')]"

definition dock :: pyval where
  "dock = item [(''ID'', PStr ''2''), (''Name'', PStr ''Dock''), (''IsOnline'', PBool False),
                (''PanelType'', PStr ''X'')]"

definition front :: pyval where
  "front = item [(''PanelID'', PInt 3), (''ReaderID'', PInt 7), (''Name'', PStr ''Front''),
                 (''ControlType'', PInt 1), (''HostName'', PStr ''h'')]"

definition rear :: pyval where
  "rear = item [(''PanelID'', PInt 3), (''ReaderID'', PInt 8), (''Name'', PStr ''Rear''),
                (''ControlType'', PInt 1), (''HostName'', PStr ''h'')]"

definition page :: "int \<Rightarrow> int \<Rightarrow> pyval list \<Rightarrow> pyval" where
  "page pages n items =
     PDict [(''total_pages'', PInt pages), (''count'', PInt n), (''item_list'', PList items)]"

text \<open>Response bodies, and a decoder that agrees with \<open>json.loads\<close> on them.\<close>

definition token_body :: string where
  \<open>token_body = ''{"session_token":"T"}''\<close>

definition null_token_body :: string where
  \<open>null_token_body = ''{"session_token":null}''\<close>

definition denied_body :: string where
  \<open>denied_body = ''{"error":"denied"}''\<close>

definition lobby_body :: string where
  \<open>lobby_body = ''{"total_pages":2,"count":2,"item_list":[{"property_value_map":{"ID":"1","Name":"Lobby","IsOnline":true,"PanelType":"X"}}]}''\<close>

definition dock_body :: string where
  \<open>dock_body = ''{"total_pages":2,"count":2,"item_list":[{"property_value_map":{"ID":"2","Name":"Dock","IsOnline":false,"PanelType":"X"}}]}''\<close>

definition front_body :: string where
  \<open>front_body = ''{"total_pages":2,"count":2,"item_list":[{"property_value_map":{"PanelID":3,"ReaderID":7,"Name":"Front","ControlType":1,"HostName":"h"}}]}''\<close>

definition rear_body :: string where
  \<open>rear_body = ''{"total_pages":2,"count":2,"item_list":[{"property_value_map":{"PanelID":3,"ReaderID":8,"Name":"Rear","ControlType":1,"HostName":"h"}}]}''\<close>

definition nothing_body :: string where
  \<open>nothing_body = ''{"total_pages":2,"count":0,"item_list":[]}''\<close>

definition directories_body :: string where
  \<open>directories_body = ''{"item_list":[{"property_value_map":{"ID":"9","Name":"Internal"}}]}''\<close>

definition internal :: pyval where
  "internal = item [(''ID'', PStr ''9''), (''Name'', PStr ''Internal'')]"

definition stub_loads :: "string \<Rightarrow> error + pyval" where
  "stub_loads s =
     (if s = token_body then Inr (PDict [(''session_token'', PStr ''T'')])
      else if s = denied_body then Inr (PDict [(''error'', PStr ''denied'')])
      else if s = lobby_body then Inr (page 2 2 [lobby])
      else if s = dock_body then Inr (page 2 2 [dock])
      else if s = front_body then Inr (page 2 2 [front])
      else if s = rear_body then Inr (page 2 2 [rear])
      else if s = nothing_body then Inr (page 2 0 [])
      else if s = directories_body then Inr (PDict [(''item_list'', PList [internal])])
      else if s = null_token_body then Inr (PDict [(''session_token'', PNone)])
      else Inl JSONDecodeError)"

definition stub_env :: "outcome list \<Rightarrow> env" where
  "stub_env outs =
     \<lparr> API_URL = ''https://host/api/access/onguard/openaccess/'',
       DEFAULT_PAGE_SIZE = ''20'',
       SUCCESS = ''Success'',
       ERROR = ''Error'',
       API_VERSION = ''1.0'',
       APPLICATION_ID = ''OPEN_ACCESS_APP'',
       decode_utf8 = Inr,
       json_loads = stub_loads,
       send = in_turn outs \<rparr>"

section \<open>Properties\<close>

subsection \<open>Auxiliary facts\<close>

lemma and_then_Inr [simp]: "and_then (Inr v) f = f v"
  by (simp add: and_then_def)

lemma and_then_Inl [simp]: "and_then (Inl e) f = Inl e"
  by (simp add: and_then_def)

lemma build_uri_with_version_eq:
  "build_uri_with_version self p v = Inr (base_url self @ p @ ''?version='' @ v)"
  by (simp add: build_uri_with_version_def)

lemma py_eq_int_True_iff: "py_eq_int v 1 \<longleftrightarrow> v = PBool True \<or> v = PInt 1"
  by (cases v) auto

lemma append_each_map:
  "\<forall>jo \<in> set jos. f jo = Inr (g jo) \<Longrightarrow> append_each f acc jos = Inr (acc @ map g jos)"
  by (induction jos arbitrary: acc) auto

lemma send_stub [simp]: "send (stub_env outs) hist rq = in_turn outs hist rq"
  by (simp add: stub_env_def)

lemma sent_init [simp]: "sent (init cfg) = []"
  by (simp add: init_def)

lemma dom_headers_init:
  "dom (headers (init cfg)) = {''Application-Id'', ''Content-Type'', ''Accept''}"
  by (auto simp add: init_def)

text \<open>
  \<open>sign_in\<close> with the endpoint computed: one POST to the authentication endpoint, and a
  result and a new object that depend on how the network answers it.
\<close>

lemma sign_in_unfold:
  "sign_in cfg u p d self =
     (let rq = authentication_request self u p d; self' = self\<lparr>sent := sent self @ [rq]\<rparr>
      in case send cfg (sent self) rq of
        Raised m \<Rightarrow> (Inr (connection_message @ m), self')
      | Response r \<Rightarrow>
          (if ok r
           then (case parse_response cfg r of
                   Inl e \<Rightarrow> (Inl e, self')
                 | Inr result \<Rightarrow>
                     (case py_getitem result ''session_token'' of
                        Inl e \<Rightarrow> (Inl e, self')
                      | Inr tok \<Rightarrow>
                          (Inr (SUCCESS cfg),
                           self'\<lparr>session_token := Some tok,
                                 headers := (headers self)(''Session-Token'' \<mapsto> tok)\<rparr>)))
           else (Inr (server_error_message @ str_int (status_code r) @ '': '' @ reason r), self')))"
  by (simp add: sign_in_def build_uri_with_version_eq issue_def authentication_request_def Let_def
           split: outcome.splits sum.splits)

lemma Connection_in_message: "sublist ''Connection'' (connection_message @ m)"
proof -
  have "prefix ''Connection'' (connection_message @ m)"
    by (simp add: connection_message_def)
  then show ?thesis by (rule prefix_imp_sublist)
qed

subsection \<open>Endpoint builder\<close>

text \<open>
  C6. For every base URL, resource path and version string, \<open>build_uri_with_version\<close>
  returns exactly the base URL followed by the resource path, \<open>?version=\<close> and the
  version; so whatever fragments a caller appends, the URL starts with that prefix.
\<close>

theorem endpoint_builder:
  "\<exists>u. build_uri_with_version self resource_path version = Inr u
       \<and> u = base_url self @ resource_path @ ''?version='' @ version
       \<and> (\<forall>fragments. prefix (base_url self @ resource_path @ ''?version='' @ version)
                                (u @ fragments))"
  by (simp add: build_uri_with_version_eq)

subsection \<open>Panel projector\<close>

text \<open>
  C7. When every entry of \<open>item_list\<close> carries a \<open>property_value_map\<close> with the keys ID,
  Name, IsOnline and PanelType, \<open>get_panels_from_result\<close> maps each entry, in order, to
  the dictionary with \<open>id\<close>, \<open>name\<close>, \<open>status\<close> and \<open>type\<close>, where \<open>status\<close> is the
  truth value of \<open>IsOnline == True\<close>: true for JSON \<open>true\<close> (and for the number 1, which
  Python's \<open>==\<close> identifies with \<open>True\<close>), false for every other value.
\<close>

theorem panel_projector:
  assumes "py_getitem result ''item_list'' = Inr (PList items)"
    and "\<forall>jo \<in> set items. py_getitem jo ''property_value_map'' = Inr (pvm jo)"
    and "\<forall>jo \<in> set items.
           py_getitem (pvm jo) ''ID'' = Inr (ID jo) \<and>
           py_getitem (pvm jo) ''Name'' = Inr (Name jo) \<and>
           py_getitem (pvm jo) ''IsOnline'' = Inr (IsOnline jo) \<and>
           py_getitem (pvm jo) ''PanelType'' = Inr (PanelType jo)"
  shows "get_panels_from_result result =
           Inr (map (\<lambda>jo. PDict [(''id'', ID jo), (''name'', Name jo),
                                  (''status'', PBool (IsOnline jo = PBool True \<or> IsOnline jo = PInt 1)),
                                  (''type'', PanelType jo)]) items)"
proof -
  let ?g = "\<lambda>jo. PDict [(''id'', ID jo), (''name'', Name jo),
                         (''status'', PBool (IsOnline jo = PBool True \<or> IsOnline jo = PInt 1)),
                         (''type'', PanelType jo)]"
  have "\<forall>jo \<in> set items. panel_of jo = Inr (?g jo)"
    using assms(2,3) by (simp add: panel_of_def property_value_def py_eq_int_True_iff)
  then have "append_each panel_of [] items = Inr ([] @ map ?g items)"
    by (rule append_each_map)
  with assms(1) show ?thesis
    by (simp add: get_panels_from_result_def)
qed

text \<open>The item \<open>lobby\<close>: Lobby, ID "1", online, of type "X".\<close>

theorem panel_projector_witness:
  "get_panels_from_result (PDict [(''item_list'', PList [lobby])]) =
     Inr [PDict [(''id'', PStr ''1''), (''name'', PStr ''Lobby''), (''status'', PBool True),
                 (''type'', PStr ''X'')]]"
  using panel_projector [of "PDict [(''item_list'', PList [lobby])]" "[lobby]"
      "\<lambda>_. PDict [(''ID'', PStr ''1''), (''Name'', PStr ''Lobby''), (''IsOnline'', PBool True),
                 (''PanelType'', PStr ''X'')]"
      "\<lambda>_. PStr ''1''" "\<lambda>_. PStr ''Lobby''" "\<lambda>_. PBool True" "\<lambda>_. PStr ''X''"]
  by (simp add: lobby_def item_def)

subsection \<open>Opening a door\<close>

text \<open>
  C3. \<open>OpenDoor\<close> is meant to POST the \<open>execute_method\<close> envelope and to return the
  success marker or a failure string. As written it does neither: for every reader, the
  attribute \<open>post_json\<close> that it reads from the session does not exist, so
  \<open>AttributeError\<close> is raised and no request is issued; and the endpoint is built with
  one argument where \<open>build_uri_with_version\<close> takes two, which is a \<open>TypeError\<close>.
\<close>

theorem OpenDoor_raises:
  "OpenDoor cfg rd self = (Inl (AttributeError ''post_json''), self)
   \<and> call_build_uri_with_version self [''execute_method''] = Inl TypeError"
  by (simp add: OpenDoor_def client_getattr_def client_attributes_def
        call_build_uri_with_version_def)

subsection \<open>Signing in: failures\<close>

text \<open>
  C8. When the POST of \<open>sign_in\<close> fails at the connection level, \<open>sign_in\<close> raises
  nothing: it returns the connection message followed by the text of the exception, a
  string that contains the word "Connection".
\<close>

theorem sign_in_connection_failure:
  assumes "send cfg (sent self) (authentication_request self username password directory_id)
             = Raised m"
  shows "fst (sign_in cfg username password directory_id self) = Inr (connection_message @ m)
         \<and> sublist ''Connection'' (connection_message @ m)"
  using assms by (simp add: sign_in_unfold Connection_in_message)

theorem sign_in_connection_failure_witness:
  "send (stub_env [Raised ''reset'']) (sent (init (stub_env [Raised ''reset''])))
       (authentication_request (init (stub_env [Raised ''reset''])) ''u'' ''p'' ''d'')
     = Raised ''reset''
   \<and> fst (sign_in (stub_env [Raised ''reset'']) ''u'' ''p'' ''d''
            (init (stub_env [Raised ''reset''])))
       = Inr (connection_message @ ''reset'')
   \<and> sublist ''Connection'' (connection_message @ ''reset'')"
  using sign_in_connection_failure [of "stub_env [Raised ''reset'']"
      "init (stub_env [Raised ''reset''])" "''u''" "''p''" "''d''" "''reset''"]
  by (simp add: in_turn_def)

text \<open>
  C9, as the code has it. When \<open>sign_in\<close> fails, by a connection-level exception or by a
  response that is not ok, the object is as it was, except that the trace holds the
  request: no field is assigned, so the stored token and the headers are those of before
  the call. Hence no token is stored if none was, and an object whose headers are those
  set at construction has exactly Application-Id, Content-Type and Accept afterwards;
  a token and a \<open>Session-Token\<close> header left by an earlier success stay.
\<close>

theorem sign_in_failure_atomic:
  assumes "send cfg (sent self) (authentication_request self username password directory_id)
             = Raised m
           \<or> (send cfg (sent self) (authentication_request self username password directory_id)
                = Response r
              \<and> \<not> ok r)"
  shows "snd (sign_in cfg username password directory_id self) =
           self\<lparr>sent := sent self @ [authentication_request self username password directory_id]\<rparr>
         \<and> session_token (snd (sign_in cfg username password directory_id self))
             = session_token self
         \<and> headers (snd (sign_in cfg username password directory_id self)) = headers self
         \<and> (session_token self = None \<longrightarrow>
              session_token (snd (sign_in cfg username password directory_id self)) = None)
         \<and> (headers self = headers (init cfg) \<longrightarrow>
              dom (headers (snd (sign_in cfg username password directory_id self))) =
                {''Application-Id'', ''Content-Type'', ''Accept''})"
proof -
  have "snd (sign_in cfg username password directory_id self) =
          self\<lparr>sent := sent self @ [authentication_request self username password directory_id]\<rparr>"
    using assms by (auto simp add: sign_in_unfold Let_def)
  then show ?thesis
    by (simp add: dom_headers_init)
qed

text \<open>
  A 401 on a new object, and a refused connection on an object that holds the token "T"
  and the header \<open>Session-Token: T\<close>.
\<close>

theorem sign_in_failure_atomic_witness:
  "fst (sign_in (stub_env [Response (reply 401 ''Unauthorized'' denied_body)]) ''u'' ''p'' ''d''
          (init (stub_env [Response (reply 401 ''Unauthorized'' denied_body)])))
     = Inr (server_error_message @ ''401: Unauthorized'')
   \<and> session_token
       (snd (sign_in (stub_env [Response (reply 401 ''Unauthorized'' denied_body)]) ''u'' ''p'' ''d''
              (init (stub_env [Response (reply 401 ''Unauthorized'' denied_body)])))) = None
   \<and> dom (headers
       (snd (sign_in (stub_env [Response (reply 401 ''Unauthorized'' denied_body)]) ''u'' ''p'' ''d''
              (init (stub_env [Response (reply 401 ''Unauthorized'' denied_body)]))))) =
         {''Application-Id'', ''Content-Type'', ''Accept''}
   \<and> snd (sign_in (stub_env []) ''u'' ''p'' ''d''
            ((init (stub_env []))\<lparr>session_token := Some (PStr ''T''),
               headers := (headers (init (stub_env [])))(''Session-Token'' \<mapsto> PStr ''T'')\<rparr>))
       = (init (stub_env []))\<lparr>session_token := Some (PStr ''T''),
            headers := (headers (init (stub_env [])))(''Session-Token'' \<mapsto> PStr ''T''),
            sent := [authentication_request
                       ((init (stub_env []))\<lparr>session_token := Some (PStr ''T''),
                          headers := (headers (init (stub_env [])))(''Session-Token'' \<mapsto> PStr ''T'')\<rparr>)
                       ''u'' ''p'' ''d'']\<rparr>"
proof -
  let ?cfg = "stub_env [Response (reply 401 ''Unauthorized'' denied_body)]"
  let ?off = "stub_env []"
  let ?in = "(init ?off)\<lparr>session_token := Some (PStr ''T''),
               headers := (headers (init ?off))(''Session-Token'' \<mapsto> PStr ''T'')\<rparr>"
  have h: "send ?cfg (sent (init ?cfg)) (authentication_request (init ?cfg) ''u'' ''p'' ''d'')
             = Raised m
         \<or> (send ?cfg (sent (init ?cfg)) (authentication_request (init ?cfg) ''u'' ''p'' ''d'')
               = Response (reply 401 ''Unauthorized'' denied_body)
             \<and> \<not> ok (reply 401 ''Unauthorized'' denied_body))" for m
    by (simp add: in_turn_def ok_def reply_def)
  have k: "send ?off (sent ?in) (authentication_request ?in ''u'' ''p'' ''d'') = Raised ''refused''
         \<or> (send ?off (sent ?in) (authentication_request ?in ''u'' ''p'' ''d'') = Response r
             \<and> \<not> ok r)" for r
    by (simp add: in_turn_def)
  have s: "str_int 401 = ''401''" by code_simp
  have "fst (sign_in ?cfg ''u'' ''p'' ''d'' (init ?cfg))
          = Inr (server_error_message @ ''401: Unauthorized'')"
    by (simp add: sign_in_unfold in_turn_def ok_def reply_def s)
  moreover have "session_token (init ?cfg) = None" by (simp add: init_def)
  ultimately have a: "fst (sign_in ?cfg ''u'' ''p'' ''d'' (init ?cfg))
          = Inr (server_error_message @ ''401: Unauthorized'')
      \<and> session_token (snd (sign_in ?cfg ''u'' ''p'' ''d'' (init ?cfg))) = None
      \<and> dom (headers (snd (sign_in ?cfg ''u'' ''p'' ''d'' (init ?cfg)))) =
           {''Application-Id'', ''Content-Type'', ''Accept''}"
    using sign_in_failure_atomic [OF h] by blast
  have "snd (sign_in ?off ''u'' ''p'' ''d'' ?in)
          = ?in\<lparr>sent := sent ?in @ [authentication_request ?in ''u'' ''p'' ''d'']\<rparr>"
    using sign_in_failure_atomic [OF k] by blast
  then have b: "snd (sign_in ?off ''u'' ''p'' ''d'' ?in)
          = (init ?off)\<lparr>session_token := Some (PStr ''T''),
              headers := (headers (init ?off))(''Session-Token'' \<mapsto> PStr ''T''),
              sent := [authentication_request ?in ''u'' ''p'' ''d'']\<rparr>"
    by simp
  from a b show ?thesis by blast
qed

text \<open>
  C9 as stated ("after a failure no token is stored and only the construction headers are
  present") fails on an object that has signed in before: after a success with the token
  "T", a second \<open>sign_in\<close> answered with 401 returns the error string and leaves the token
  and the \<open>Session-Token\<close> header where they were.
\<close>

theorem sign_in_failure_keeps_token_counterexample:
  "fst (sign_in (stub_env [Response (reply 200 ''OK'' token_body),
                           Response (reply 401 ''Unauthorized'' denied_body)]) ''u'' ''p'' ''d''
         (snd (sign_in (stub_env [Response (reply 200 ''OK'' token_body),
                                  Response (reply 401 ''Unauthorized'' denied_body)]) ''u'' ''p'' ''d''
                (init (stub_env [Response (reply 200 ''OK'' token_body),
                                 Response (reply 401 ''Unauthorized'' denied_body)])))))
     = Inr (server_error_message @ ''401: Unauthorized'')
   \<and> session_token
       (snd (sign_in (stub_env [Response (reply 200 ''OK'' token_body),
                                Response (reply 401 ''Unauthorized'' denied_body)]) ''u'' ''p'' ''d''
         (snd (sign_in (stub_env [Response (reply 200 ''OK'' token_body),
                                  Response (reply 401 ''Unauthorized'' denied_body)]) ''u'' ''p'' ''d''
                (init (stub_env [Response (reply 200 ''OK'' token_body),
                                 Response (reply 401 ''Unauthorized'' denied_body)]))))))
     = Some (PStr ''T'')
   \<and> headers
       (snd (sign_in (stub_env [Response (reply 200 ''OK'' token_body),
                                Response (reply 401 ''Unauthorized'' denied_body)]) ''u'' ''p'' ''d''
         (snd (sign_in (stub_env [Response (reply 200 ''OK'' token_body),
                                  Response (reply 401 ''Unauthorized'' denied_body)]) ''u'' ''p'' ''d''
                (init (stub_env [Response (reply 200 ''OK'' token_body),
                                 Response (reply 401 ''Unauthorized'' denied_body)]))))))
       ''Session-Token''
     = Some (PStr ''T'')"
proof -
  have s: "str_int 401 = ''401''" by code_simp
  have t: "stub_loads token_body = Inr (PDict [(''session_token'', PStr ''T'')])"
    by (simp add: stub_loads_def)
  show ?thesis
    by (simp add: sign_in_unfold Let_def in_turn_def ok_def reply_def parse_response_def
          stub_env_def t s)
qed

subsection \<open>Requests and headers of the data methods\<close>

lemma request_instances_unfold:
  "request_instances cfg ty i pid self =
     (let rq = instances_request cfg self ty pid i; self' = self\<lparr>sent := sent self @ [rq]\<rparr>
      in case send cfg (sent self) rq of
           Raised m \<Rightarrow> (Inl (RequestException m), self')
         | Response r \<Rightarrow> (parse_response cfg r, self'))"
  by (simp add: request_instances_def build_uri_with_version_eq client_get_def issue_def
        instances_request_def instances_uri_def Let_def split: outcome.splits)

lemma get_directories_unfold:
  "get_directories cfg self =
     (let rq = directories_request self; self' = self\<lparr>sent := sent self @ [rq]\<rparr>
      in case send cfg (sent self) rq of
           Raised m \<Rightarrow> (Inl (RequestException m), self')
         | Response r \<Rightarrow>
             (if status_code r = 200
              then (and_then (json_loads cfg (text_str r)) (\<lambda>result.
                    and_then (py_getitem result ''item_list'') (\<lambda>il.
                    and_then (py_iter il) (\<lambda>ds.
                    and_then (append_each directory_of [] ds) (\<lambda>directories.
                      Inr (PList directories))))), self')
              else (Inr PNone, self')))"
  by (simp add: get_directories_def build_uri_with_version_eq client_get_def issue_def
        directories_request_def Let_def split: outcome.splits)

















subsection \<open>Evaluating the stub environments\<close>

lemma str_int_1: "str_int 1 = ''1''"
  by code_simp

lemma str_int_2: "str_int 2 = ''2''"
  by code_simp

lemma loads_stub [simp]: "json_loads (stub_env outs) = stub_loads"
  by (simp add: stub_env_def)

lemma decode_stub [simp]: "decode_utf8 (stub_env outs) = Inr"
  by (simp add: stub_env_def)

lemma stub_constants [simp]:
  "API_URL (stub_env outs) = ''https://host/api/access/onguard/openaccess/''"
  "DEFAULT_PAGE_SIZE (stub_env outs) = ''20''"
  "SUCCESS (stub_env outs) = ''Success''"
  by (simp_all add: stub_env_def)

lemma base_url_init [simp]: "base_url (init cfg) = API_URL cfg"
  by (simp add: init_def)

lemma parse_stub [simp]: "parse_response (stub_env outs) (reply code why body) = stub_loads body"
  by (simp add: parse_response_def reply_def)

lemmas body_defs = token_body_def null_token_body_def denied_body_def lobby_body_def dock_body_def front_body_def
  rear_body_def nothing_body_def directories_body_def

lemma stub_loads_lobby: "stub_loads lobby_body = Inr (page 2 2 [lobby])"
  by (simp add: stub_loads_def body_defs)

lemma stub_loads_dock: "stub_loads dock_body = Inr (page 2 2 [dock])"
  by (simp add: stub_loads_def body_defs)

lemma stub_loads_front: "stub_loads front_body = Inr (page 2 2 [front])"
  by (simp add: stub_loads_def body_defs)

lemma stub_loads_rear: "stub_loads rear_body = Inr (page 2 2 [rear])"
  by (simp add: stub_loads_def body_defs)

lemma stub_loads_nothing: "stub_loads nothing_body = Inr (page 2 0 [])"
  by (simp add: stub_loads_def body_defs)



lemma stub_loads_denied: "stub_loads denied_body = Inr (PDict [(''error'', PStr ''denied'')])"
  by (simp add: stub_loads_def token_body_def denied_body_def)

lemma stub_loads_directories:
  "stub_loads directories_body = Inr (PDict [(''item_list'', PList [internal])])"
  by (simp add: stub_loads_def token_body_def denied_body_def lobby_body_def dock_body_def
        front_body_def rear_body_def nothing_body_def directories_body_def)

subsection \<open>Signing in: success\<close>




text \<open>
  C2, as the code has it. \<open>sign_in\<close> returns a string exactly in three cases: the POST
  fails at the connection level; the response is not ok; the response is ok and its body
  decodes to a dictionary with the key \<open>session_token\<close>. For an ok response whose body
  does not decode, or decodes to a value without that key, the exception of the decoder
  or of the lookup leaves \<open>sign_in\<close>: they are raised after the \<open>try\<close> statement.
\<close>

theorem sign_in_returns_string_iff:
  "(\<exists>s. fst (sign_in cfg username password directory_id self) = Inr s) \<longleftrightarrow>
     (case send cfg (sent self) (authentication_request self username password directory_id) of
        Raised m \<Rightarrow> True
      | Response r \<Rightarrow>
          \<not> ok r \<or> (\<exists>body tok. parse_response cfg r = Inr body
                                \<and> py_getitem body ''session_token'' = Inr tok))"
  by (auto simp add: sign_in_unfold Let_def split: outcome.splits sum.splits)

text \<open>
  A server error with an HTML body gives a string; an ok response whose body is the
  JSON object \<open>{"error":"denied"}\<close> gives none.
\<close>

theorem sign_in_returns_string_iff_witness:
  "(\<exists>s. fst (sign_in (stub_env [Response (reply 500 ''Internal Server Error'' ''<html>'')])
              ''u'' ''p'' ''d''
              (init (stub_env [Response (reply 500 ''Internal Server Error'' ''<html>'')]))) = Inr s)
   \<and> \<not> (\<exists>s. fst (sign_in (stub_env [Response (reply 200 ''OK'' denied_body)]) ''u'' ''p'' ''d''
                  (init (stub_env [Response (reply 200 ''OK'' denied_body)]))) = Inr s)"
proof -
  let ?bad = "stub_env [Response (reply 500 ''Internal Server Error'' ''<html>'')]"
  let ?odd = "stub_env [Response (reply 200 ''OK'' denied_body)]"
  have "\<exists>s. fst (sign_in ?bad ''u'' ''p'' ''d'' (init ?bad)) = Inr s"
    using sign_in_returns_string_iff [of ?bad "''u''" "''p''" "''d''" "init ?bad"]
    by (simp add: in_turn_def ok_def reply_def)
  moreover have "\<not> (\<exists>s. fst (sign_in ?odd ''u'' ''p'' ''d'' (init ?odd)) = Inr s)"
    using sign_in_returns_string_iff [of ?odd "''u''" "''p''" "''d''" "init ?odd"]
    by (simp add: in_turn_def ok_def reply_def parse_response_def stub_loads_denied)
  ultimately show ?thesis by simp
qed

text \<open>
  C2 as stated ("a success response with any body gives a string") fails: on a 200
  response with the body \<open>{"error":"denied"}\<close>, \<open>KeyError\<close> leaves \<open>sign_in\<close>.
\<close>

theorem sign_in_raises_counterexample:
  "fst (sign_in (stub_env [Response (reply 200 ''OK'' denied_body)]) ''u'' ''p'' ''d''
          (init (stub_env [Response (reply 200 ''OK'' denied_body)])))
     = Inl (KeyError ''session_token'')"
  by (simp add: sign_in_unfold Let_def in_turn_def ok_def reply_def parse_response_def
        stub_loads_denied)

subsection \<open>Directories\<close>

text \<open>
  C10. \<open>get_directories\<close> returns \<open>None\<close> exactly when a response arrives whose status
  code is not 200; it never returns a string; and on a 200 response whose body decodes to
  a dictionary whose \<open>item_list\<close> entries carry a \<open>property_value_map\<close> with ID and Name,
  it returns one dictionary per entry, in order, with the capitalised keys \<open>Id\<close> and
  \<open>Name\<close>.
\<close>

theorem get_directories_result:
  "(fst (get_directories cfg self) = Inr PNone \<longleftrightarrow>
      (\<exists>r. send cfg (sent self) (directories_request self) = Response r \<and> status_code r \<noteq> 200))
   \<and> (\<forall>s. fst (get_directories cfg self) \<noteq> Inr (PStr s))
   \<and> (send cfg (sent self) (directories_request self) = Response r \<and> status_code r = 200
        \<and> json_loads cfg (text_str r) = Inr result
        \<and> py_getitem result ''item_list'' = Inr (PList items)
        \<and> (\<forall>d \<in> set items. py_getitem d ''property_value_map'' = Inr (pvm d)
               \<and> py_getitem (pvm d) ''ID'' = Inr (ID d)
               \<and> py_getitem (pvm d) ''Name'' = Inr (Name d))
      \<longrightarrow> fst (get_directories cfg self) =
            Inr (PList (map (\<lambda>d. PDict [(''Id'', ID d), (''Name'', Name d)]) items)))"
proof (intro conjI impI allI)
  show "fst (get_directories cfg self) = Inr PNone \<longleftrightarrow>
      (\<exists>r. send cfg (sent self) (directories_request self) = Response r \<and> status_code r \<noteq> 200)"
    by (auto simp add: get_directories_unfold Let_def and_then_def
          split: outcome.splits sum.splits)
next
  fix s show "fst (get_directories cfg self) \<noteq> Inr (PStr s)"
    by (auto simp add: get_directories_unfold Let_def and_then_def
          split: outcome.splits sum.splits)
next
  assume a: "send cfg (sent self) (directories_request self) = Response r \<and> status_code r = 200
        \<and> json_loads cfg (text_str r) = Inr result
        \<and> py_getitem result ''item_list'' = Inr (PList items)
        \<and> (\<forall>d \<in> set items. py_getitem d ''property_value_map'' = Inr (pvm d)
               \<and> py_getitem (pvm d) ''ID'' = Inr (ID d)
               \<and> py_getitem (pvm d) ''Name'' = Inr (Name d))"
  let ?g = "\<lambda>d. PDict [(''Id'', ID d), (''Name'', Name d)]"
  from a have "\<forall>d \<in> set items. directory_of d = Inr (?g d)"
    by (simp add: directory_of_def property_value_def)
  then have "append_each directory_of [] items = Inr ([] @ map ?g items)"
    by (rule append_each_map)
  with a show "fst (get_directories cfg self) = Inr (PList (map ?g items))"
    by (simp add: get_directories_unfold Let_def)
qed

theorem get_directories_result_witness:
  "fst (get_directories (stub_env [Response (reply 200 ''OK'' directories_body)])
         (init (stub_env [Response (reply 200 ''OK'' directories_body)])))
     = Inr (PList [PDict [(''Id'', PStr ''9''), (''Name'', PStr ''Internal'')]])
   \<and> fst (get_directories (stub_env [Response (reply 404 ''Not Found'' directories_body)])
         (init (stub_env [Response (reply 404 ''Not Found'' directories_body)])))
     = Inr PNone"
proof -
  let ?cfg = "stub_env [Response (reply 200 ''OK'' directories_body)]"
  let ?no = "stub_env [Response (reply 404 ''Not Found'' directories_body)]"
  have "send ?cfg (sent (init ?cfg)) (directories_request (init ?cfg))
          = Response (reply 200 ''OK'' directories_body)
        \<and> status_code (reply 200 ''OK'' directories_body) = 200
        \<and> json_loads ?cfg (text_str (reply 200 ''OK'' directories_body))
            = Inr (PDict [(''item_list'', PList [internal])])
        \<and> py_getitem (PDict [(''item_list'', PList [internal])]) ''item_list'' = Inr (PList [internal])
        \<and> (\<forall>d \<in> set [internal].
              py_getitem d ''property_value_map''
                = Inr (PDict [(''ID'', PStr ''9''), (''Name'', PStr ''Internal'')])
            \<and> py_getitem (PDict [(''ID'', PStr ''9''), (''Name'', PStr ''Internal'')]) ''ID''
                = Inr (PStr ''9'')
            \<and> py_getitem (PDict [(''ID'', PStr ''9''), (''Name'', PStr ''Internal'')]) ''Name''
                = Inr (PStr ''Internal''))"
    by (simp add: in_turn_def reply_def stub_loads_directories internal_def item_def)
  with get_directories_result [of ?cfg "init ?cfg" "reply 200 ''OK'' directories_body"
      "PDict [(''item_list'', PList [internal])]" "[internal]"
      "\<lambda>_. PDict [(''ID'', PStr ''9''), (''Name'', PStr ''Internal'')]"
      "\<lambda>_. PStr ''9''" "\<lambda>_. PStr ''Internal''"]
  have a: "fst (get_directories ?cfg (init ?cfg))
             = Inr (PList [PDict [(''Id'', PStr ''9''), (''Name'', PStr ''Internal'')]])"
    by simp
  have "\<exists>r. send ?no (sent (init ?no)) (directories_request (init ?no)) = Response r
           \<and> status_code r \<noteq> 200"
    by (simp add: in_turn_def reply_def)
  with get_directories_result [of ?no "init ?no"]
  have b: "fst (get_directories ?no (init ?no)) = Inr PNone"
    by blast
  from a b show ?thesis by simp
qed

subsection \<open>Fetching every page\<close>

text \<open>
  C5. When the first page of a reader query reports a count equal to zero,
  \<open>retrieve_readers\<close> returns the empty list after that single request, whatever
  \<open>total_pages\<close> says, for every panel id.
\<close>

theorem retrieve_readers_zero_count:
  assumes "send cfg (sent self) (instances_request cfg self ''Lnl_Reader'' panel_id 1) = Response r"
    and "parse_response cfg r = Inr result"
    and "py_getitem result ''count'' = Inr c"
    and "py_eq_int c 0"
  shows "retrieve_readers cfg panel_id self =
           (Inr [], self\<lparr>sent := sent self @ [instances_request cfg self ''Lnl_Reader'' panel_id 1]\<rparr>)
         \<and> length (sent (snd (retrieve_readers cfg panel_id self))) = length (sent self) + 1"
  using assms by (simp add: retrieve_readers_def request_instances_unfold Let_def)

theorem retrieve_readers_zero_count_witness:
  "fst (retrieve_readers (stub_env [Response (reply 200 ''OK'' nothing_body),
                                    Response (reply 200 ''OK'' rear_body)]) 3
         (init (stub_env [Response (reply 200 ''OK'' nothing_body),
                          Response (reply 200 ''OK'' rear_body)]))) = Inr []
   \<and> length (sent (snd (retrieve_readers (stub_env [Response (reply 200 ''OK'' nothing_body),
                                    Response (reply 200 ''OK'' rear_body)]) 3
         (init (stub_env [Response (reply 200 ''OK'' nothing_body),
                          Response (reply 200 ''OK'' rear_body)]))))) = 1"
proof -
  let ?cfg = "stub_env [Response (reply 200 ''OK'' nothing_body), Response (reply 200 ''OK'' rear_body)]"
  have 1: "send ?cfg (sent (init ?cfg)) (instances_request ?cfg (init ?cfg) ''Lnl_Reader'' 3 1)
             = Response (reply 200 ''OK'' nothing_body)"
    by (simp add: in_turn_def)
  have 2: "parse_response ?cfg (reply 200 ''OK'' nothing_body) = Inr (page 2 0 [])"
    by (simp add: parse_response_def reply_def stub_loads_nothing)
  have 3: "py_getitem (page 2 0 []) ''count'' = Inr (PInt 0)"
    by (simp add: page_def)
  have 4: "py_eq_int (PInt 0) 0" by simp
  show ?thesis
    using retrieve_readers_zero_count [OF 1 2 3 4] by simp
qed

lemma instances_request_sent [simp]:
  "instances_request cfg (self\<lparr>sent := x\<rparr>) = instances_request cfg self"
  by (simp add: instances_request_def instances_uri_def get_request_def fun_eq_iff)

lemma instances_request_panels [simp]:
  "instances_request cfg (self\<lparr>panels := x\<rparr>) = instances_request cfg self"
  by (simp add: instances_request_def instances_uri_def get_request_def fun_eq_iff)

lemma panels_loop_pages:
  assumes "serves cfg (sent self) (map (instances_request cfg self ''Lnl_Panel'' (- 1)) js) resps"
    and "list_all2 (\<lambda>r p. parse_response cfg r = Inr p) resps pages"
    and "list_all2 (\<lambda>p its. get_panels_from_result p = Inr its) pages itemss"
  shows "panels_loop cfg js self =
           (Inr (), self\<lparr>panels := panels self @ concat itemss,
                         sent := sent self @ map (instances_request cfg self ''Lnl_Panel'' (- 1)) js\<rparr>)"
  using assms
proof (induction js arbitrary: self resps pages itemss)
  case Nil
  then show ?case by (cases resps) auto
next
  case (Cons j js)
  let ?rq = "instances_request cfg self ''Lnl_Panel'' (- 1)"
  from Cons.prems(1) obtain r rs where resps: "resps = r # rs"
    by (cases resps) auto
  with Cons.prems(1) have send: "send cfg (sent self) (?rq j) = Response r"
    and rest: "serves cfg (sent self @ [?rq j]) (map ?rq js) rs"
    by auto
  from Cons.prems(2) resps obtain p ps where pages: "pages = p # ps"
    and p: "parse_response cfg r = Inr p"
    and ps: "list_all2 (\<lambda>r p. parse_response cfg r = Inr p) rs ps"
    by (auto simp add: list_all2_Cons1)
  from Cons.prems(3) pages obtain its itss where itemss: "itemss = its # itss"
    and its: "get_panels_from_result p = Inr its"
    and itss: "list_all2 (\<lambda>p its. get_panels_from_result p = Inr its) ps itss"
    by (auto simp add: list_all2_Cons1)
  let ?self1 = "self\<lparr>sent := sent self @ [?rq j], panels := panels self @ its\<rparr>"
  have "panels_loop cfg js ?self1 =
          (Inr (), ?self1\<lparr>panels := panels ?self1 @ concat itss,
                           sent := sent ?self1 @ map (instances_request cfg ?self1 ''Lnl_Panel'' (- 1)) js\<rparr>)"
    using rest ps itss by (intro Cons.IH) simp_all
  with send p its show ?case
    by (simp add: request_instances_unfold Let_def itemss)
qed

lemma readers_loop_pages:
  assumes "serves cfg (sent self) (map (instances_request cfg self ''Lnl_Reader'' pid) js) resps"
    and "list_all2 (\<lambda>r p. parse_response cfg r = Inr p) resps pages"
    and "list_all2 (\<lambda>p its. get_readers_from_result p = Inr its) pages itemss"
  shows "readers_loop cfg pid js acc self =
           (Inr (acc @ concat itemss),
            self\<lparr>sent := sent self @ map (instances_request cfg self ''Lnl_Reader'' pid) js\<rparr>)"
  using assms
proof (induction js arbitrary: self resps pages itemss acc)
  case Nil
  then show ?case by (cases resps) auto
next
  case (Cons j js)
  let ?rq = "instances_request cfg self ''Lnl_Reader'' pid"
  from Cons.prems(1) obtain r rs where resps: "resps = r # rs"
    by (cases resps) auto
  with Cons.prems(1) have send: "send cfg (sent self) (?rq j) = Response r"
    and rest: "serves cfg (sent self @ [?rq j]) (map ?rq js) rs"
    by auto
  from Cons.prems(2) resps obtain p ps where pages: "pages = p # ps"
    and p: "parse_response cfg r = Inr p"
    and ps: "list_all2 (\<lambda>r p. parse_response cfg r = Inr p) rs ps"
    by (auto simp add: list_all2_Cons1)
  from Cons.prems(3) pages obtain its itss where itemss: "itemss = its # itss"
    and its: "get_readers_from_result p = Inr its"
    and itss: "list_all2 (\<lambda>p its. get_readers_from_result p = Inr its) ps itss"
    by (auto simp add: list_all2_Cons1)
  let ?self1 = "self\<lparr>sent := sent self @ [?rq j]\<rparr>"
  have "readers_loop cfg pid js (acc @ its) ?self1 =
          (Inr ((acc @ its) @ concat itss),
           ?self1\<lparr>sent := sent ?self1 @ map (instances_request cfg ?self1 ''Lnl_Reader'' pid) js\<rparr>)"
    using rest ps itss by (intro Cons.IH) simp_all
  with send p its show ?case
    by (simp add: request_instances_unfold Let_def itemss)
qed

lemma retrieve_panels_pages:
  assumes "1 \<le> N"
    and "py_getitem (hd pages) ''total_pages'' = Inr (PInt N)"
    and "list_all2 (\<lambda>r p. parse_response cfg r = Inr p) resps pages"
    and "serves cfg (sent self) (map (instances_request cfg self ''Lnl_Panel'' (- 1)) [1..N]) resps"
    and "list_all2 (\<lambda>p its. get_panels_from_result p = Inr its) pages itemss"
  shows "retrieve_panels cfg self =
           (Inr (concat itemss),
            self\<lparr>panels := concat itemss,
                  sent := sent self @ map (instances_request cfg self ''Lnl_Panel'' (- 1)) [1..N]\<rparr>)"
proof -
  let ?rq = "instances_request cfg self ''Lnl_Panel'' (- 1)"
  have upto: "[1..N] = 1 # [2..N]"
    using assms(1) by (simp add: upto_rec1)
  from assms(4) upto obtain r rs where resps: "resps = r # rs"
    by (cases resps) auto
  with assms(4) upto have send: "send cfg (sent self) (?rq 1) = Response r"
    and rest: "serves cfg (sent self @ [?rq 1]) (map ?rq [2..N]) rs"
    by auto
  from assms(3) resps obtain p ps where pages: "pages = p # ps"
    and p: "parse_response cfg r = Inr p"
    and ps: "list_all2 (\<lambda>r p. parse_response cfg r = Inr p) rs ps"
    by (auto simp add: list_all2_Cons1)
  from assms(5) pages obtain its itss where itemss: "itemss = its # itss"
    and its: "get_panels_from_result p = Inr its"
    and itss: "list_all2 (\<lambda>p its. get_panels_from_result p = Inr its) ps itss"
    by (auto simp add: list_all2_Cons1)
  from assms(2) pages have total: "py_getitem p ''total_pages'' = Inr (PInt N)"
    by simp
  let ?self1 = "self\<lparr>sent := sent self @ [?rq 1], panels := its\<rparr>"
  have "panels_loop cfg [2..N] ?self1 =
          (Inr (), ?self1\<lparr>panels := panels ?self1 @ concat itss,
                           sent := sent ?self1 @ map (instances_request cfg ?self1 ''Lnl_Panel'' (- 1)) [2..N]\<rparr>)"
    using rest ps itss by (intro panels_loop_pages) simp_all
  with send p its total show ?thesis
    by (simp add: retrieve_panels_def request_instances_unfold Let_def itemss upto)
qed

lemma retrieve_readers_pages:
  assumes "1 \<le> N"
    and "py_getitem (hd pages) ''total_pages'' = Inr (PInt N)"
    and "list_all2 (\<lambda>r p. parse_response cfg r = Inr p) resps pages"
    and "serves cfg (sent self) (map (instances_request cfg self ''Lnl_Reader'' pid) [1..N]) resps"
    and "list_all2 (\<lambda>p its. get_readers_from_result p = Inr its) pages itemss"
    and "py_getitem (hd pages) ''count'' = Inr c"
    and "\<not> py_eq_int c 0"
  shows "retrieve_readers cfg pid self =
           (Inr (concat itemss),
            self\<lparr>sent := sent self @ map (instances_request cfg self ''Lnl_Reader'' pid) [1..N]\<rparr>)"
proof -
  let ?rq = "instances_request cfg self ''Lnl_Reader'' pid"
  have upto: "[1..N] = 1 # [2..N]"
    using assms(1) by (simp add: upto_rec1)
  from assms(4) upto obtain r rs where resps: "resps = r # rs"
    by (cases resps) auto
  with assms(4) upto have send: "send cfg (sent self) (?rq 1) = Response r"
    and rest: "serves cfg (sent self @ [?rq 1]) (map ?rq [2..N]) rs"
    by auto
  from assms(3) resps obtain p ps where pages: "pages = p # ps"
    and p: "parse_response cfg r = Inr p"
    and ps: "list_all2 (\<lambda>r p. parse_response cfg r = Inr p) rs ps"
    by (auto simp add: list_all2_Cons1)
  from assms(5) pages obtain its itss where itemss: "itemss = its # itss"
    and its: "get_readers_from_result p = Inr its"
    and itss: "list_all2 (\<lambda>p its. get_readers_from_result p = Inr its) ps itss"
    by (auto simp add: list_all2_Cons1)
  from assms(2,6) pages have total: "py_getitem p ''total_pages'' = Inr (PInt N)"
    and count: "py_getitem p ''count'' = Inr c"
    by simp_all
  let ?self1 = "self\<lparr>sent := sent self @ [?rq 1]\<rparr>"
  have "readers_loop cfg pid [2..N] its ?self1 =
          (Inr (its @ concat itss),
           ?self1\<lparr>sent := sent ?self1 @ map (instances_request cfg ?self1 ''Lnl_Reader'' pid) [2..N]\<rparr>)"
    using rest ps itss by (intro readers_loop_pages) simp_all
  with send p its total count assms(7) show ?thesis
    by (simp add: retrieve_readers_def request_instances_unfold Let_def itemss upto)
qed

text \<open>
  C4, as the code has it. Let the first page report \<open>total_pages = N\<close> with \<open>N \<ge> 1\<close>,
  and let the network answer the requests for the pages 1 to \<open>N\<close>, in this order, with
  responses that decode to pages whose items the projector accepts. Then
  \<open>retrieve_panels\<close> issues exactly these \<open>N\<close> requests, in ascending order of the page
  number, returns the projected items of all pages in page order, and keeps them in
  \<open>panels\<close>. \<open>retrieve_readers\<close> does the same (without keeping the list) when moreover
  the first page reports a count that is not zero; this condition is needed for every
  reader query, filtered or not.
\<close>

theorem fetch_all_pages:
  assumes "1 \<le> N"
    and "py_getitem (hd pages) ''total_pages'' = Inr (PInt N)"
    and "list_all2 (\<lambda>r p. parse_response cfg r = Inr p) resps pages"
  shows "(serves cfg (sent self) (map (instances_request cfg self ''Lnl_Panel'' (- 1)) [1..N]) resps
          \<and> list_all2 (\<lambda>p its. get_panels_from_result p = Inr its) pages itemss
          \<longrightarrow> retrieve_panels cfg self =
                (Inr (concat itemss),
                 self\<lparr>panels := concat itemss,
                       sent := sent self
                         @ map (instances_request cfg self ''Lnl_Panel'' (- 1)) [1..N]\<rparr>))
       \<and> (serves cfg (sent self) (map (instances_request cfg self ''Lnl_Reader'' panel_id) [1..N]) resps
          \<and> list_all2 (\<lambda>p its. get_readers_from_result p = Inr its) pages itemss
          \<and> py_getitem (hd pages) ''count'' = Inr c \<and> \<not> py_eq_int c 0
          \<longrightarrow> retrieve_readers cfg panel_id self =
                (Inr (concat itemss),
                 self\<lparr>sent := sent self
                         @ map (instances_request cfg self ''Lnl_Reader'' panel_id) [1..N]\<rparr>))
       \<and> length (map (instances_request cfg self type_name panel_id) [1..N]) = nat N
       \<and> map url (map (instances_request cfg self type_name panel_id) [1..N])
           = map (instances_uri cfg self type_name panel_id) [1..N]"
proof (intro conjI impI)
  assume "serves cfg (sent self) (map (instances_request cfg self ''Lnl_Panel'' (- 1)) [1..N]) resps
          \<and> list_all2 (\<lambda>p its. get_panels_from_result p = Inr its) pages itemss"
  then have a: "serves cfg (sent self) (map (instances_request cfg self ''Lnl_Panel'' (- 1)) [1..N]) resps"
    and b: "list_all2 (\<lambda>p its. get_panels_from_result p = Inr its) pages itemss"
    by blast+
  show "retrieve_panels cfg self =
                (Inr (concat itemss),
                 self\<lparr>panels := concat itemss,
                       sent := sent self
                         @ map (instances_request cfg self ''Lnl_Panel'' (- 1)) [1..N]\<rparr>)"
    by (rule retrieve_panels_pages [OF assms a b])
next
  assume "serves cfg (sent self) (map (instances_request cfg self ''Lnl_Reader'' panel_id) [1..N]) resps
          \<and> list_all2 (\<lambda>p its. get_readers_from_result p = Inr its) pages itemss
          \<and> py_getitem (hd pages) ''count'' = Inr c \<and> \<not> py_eq_int c 0"
  then have a: "serves cfg (sent self) (map (instances_request cfg self ''Lnl_Reader'' panel_id) [1..N]) resps"
    and b: "list_all2 (\<lambda>p its. get_readers_from_result p = Inr its) pages itemss"
    and c: "py_getitem (hd pages) ''count'' = Inr c" and d: "\<not> py_eq_int c 0"
    by blast+
  show "retrieve_readers cfg panel_id self =
                (Inr (concat itemss),
                 self\<lparr>sent := sent self
                         @ map (instances_request cfg self ''Lnl_Reader'' panel_id) [1..N]\<rparr>)"
    by (rule retrieve_readers_pages [OF assms a b c d])
next
  show "length (map (instances_request cfg self type_name panel_id) [1..N]) = nat N"
    using assms(1) by simp
next
  show "map url (map (instances_request cfg self type_name panel_id) [1..N])
           = map (instances_uri cfg self type_name panel_id) [1..N]"
    by (simp add: instances_request_def get_request_def)
qed

text \<open>
  Two pages of one panel each, and two pages of one reader each for panel 3.
\<close>

theorem fetch_all_pages_witness:
  "retrieve_panels (stub_env [Response (reply 200 ''OK'' lobby_body), Response (reply 200 ''OK'' dock_body)])
     (init (stub_env [Response (reply 200 ''OK'' lobby_body), Response (reply 200 ''OK'' dock_body)]))
   = (Inr [PDict [(''id'', PStr ''1''), (''name'', PStr ''Lobby''), (''status'', PBool True), (''type'', PStr ''X'')],
           PDict [(''id'', PStr ''2''), (''name'', PStr ''Dock''), (''status'', PBool False), (''type'', PStr ''X'')]],
      (init (stub_env [Response (reply 200 ''OK'' lobby_body), Response (reply 200 ''OK'' dock_body)]))
       \<lparr>panels := [PDict [(''id'', PStr ''1''), (''name'', PStr ''Lobby''), (''status'', PBool True), (''type'', PStr ''X'')],
                   PDict [(''id'', PStr ''2''), (''name'', PStr ''Dock''), (''status'', PBool False), (''type'', PStr ''X'')]],
        sent := map (instances_request (stub_env [Response (reply 200 ''OK'' lobby_body), Response (reply 200 ''OK'' dock_body)])
                  (init (stub_env [Response (reply 200 ''OK'' lobby_body), Response (reply 200 ''OK'' dock_body)]))
                  ''Lnl_Panel'' (- 1)) [1, 2]\<rparr>)
   \<and> retrieve_readers (stub_env [Response (reply 200 ''OK'' front_body), Response (reply 200 ''OK'' rear_body)]) 3
     (init (stub_env [Response (reply 200 ''OK'' front_body), Response (reply 200 ''OK'' rear_body)]))
   = (Inr [PDict [(''panelId'', PInt 3), (''id'', PInt 7), (''name'', PStr ''Front''), (''type'', PInt 1), (''hostName'', PStr ''h'')],
           PDict [(''panelId'', PInt 3), (''id'', PInt 8), (''name'', PStr ''Rear''), (''type'', PInt 1), (''hostName'', PStr ''h'')]],
      (init (stub_env [Response (reply 200 ''OK'' front_body), Response (reply 200 ''OK'' rear_body)]))
       \<lparr>sent := map (instances_request (stub_env [Response (reply 200 ''OK'' front_body), Response (reply 200 ''OK'' rear_body)])
                  (init (stub_env [Response (reply 200 ''OK'' front_body), Response (reply 200 ''OK'' rear_body)]))
                  ''Lnl_Reader'' 3) [1, 2]\<rparr>)"
proof -
  let ?P = "stub_env [Response (reply 200 ''OK'' lobby_body), Response (reply 200 ''OK'' dock_body)]"
  let ?R = "stub_env [Response (reply 200 ''OK'' front_body), Response (reply 200 ''OK'' rear_body)]"
  let ?lobby = "PDict [(''id'', PStr ''1''), (''name'', PStr ''Lobby''), (''status'', PBool True), (''type'', PStr ''X'')]"
  let ?dock = "PDict [(''id'', PStr ''2''), (''name'', PStr ''Dock''), (''status'', PBool False), (''type'', PStr ''X'')]"
  let ?front = "PDict [(''panelId'', PInt 3), (''id'', PInt 7), (''name'', PStr ''Front''), (''type'', PInt 1), (''hostName'', PStr ''h'')]"
  let ?rear = "PDict [(''panelId'', PInt 3), (''id'', PInt 8), (''name'', PStr ''Rear''), (''type'', PInt 1), (''hostName'', PStr ''h'')]"
  have n: "(1::int) \<le> 2" by simp
  have u: "[1..2] = [1, 2::int]" by (simp add: upto_rec1)
  have t1: "py_getitem (hd [page 2 2 [lobby], page 2 2 [dock]]) ''total_pages'' = Inr (PInt 2)"
    by (simp add: page_def)
  have p1: "list_all2 (\<lambda>r p. parse_response ?P r = Inr p)
              [reply 200 ''OK'' lobby_body, reply 200 ''OK'' dock_body]
              [page 2 2 [lobby], page 2 2 [dock]]"
    by (simp add: stub_loads_lobby stub_loads_dock)
  have s1: "serves ?P (sent (init ?P)) (map (instances_request ?P (init ?P) ''Lnl_Panel'' (- 1)) [1..2])
              [reply 200 ''OK'' lobby_body, reply 200 ''OK'' dock_body]"
    by (simp add: u in_turn_def)
  have g1: "list_all2 (\<lambda>p its. get_panels_from_result p = Inr its)
              [page 2 2 [lobby], page 2 2 [dock]] [[?lobby], [?dock]]"
    by (simp add: get_panels_from_result_def page_def lobby_def dock_def item_def panel_of_def
          property_value_def)
  have a: "retrieve_panels ?P (init ?P) =
             (Inr [?lobby, ?dock],
              (init ?P)\<lparr>panels := [?lobby, ?dock],
                sent := map (instances_request ?P (init ?P) ''Lnl_Panel'' (- 1)) [1, 2]\<rparr>)"
    using fetch_all_pages [OF n t1 p1, of "init ?P" "[[?lobby], [?dock]]"] s1 g1
    by (simp add: u)
  have t2: "py_getitem (hd [page 2 2 [front], page 2 2 [rear]]) ''total_pages'' = Inr (PInt 2)"
    by (simp add: page_def)
  have c2: "py_getitem (hd [page 2 2 [front], page 2 2 [rear]]) ''count'' = Inr (PInt 2)"
    by (simp add: page_def)
  have p2: "list_all2 (\<lambda>r p. parse_response ?R r = Inr p)
              [reply 200 ''OK'' front_body, reply 200 ''OK'' rear_body]
              [page 2 2 [front], page 2 2 [rear]]"
    by (simp add: stub_loads_front stub_loads_rear)
  have s2: "serves ?R (sent (init ?R)) (map (instances_request ?R (init ?R) ''Lnl_Reader'' 3) [1..2])
              [reply 200 ''OK'' front_body, reply 200 ''OK'' rear_body]"
    by (simp add: u in_turn_def)
  have g2: "list_all2 (\<lambda>p its. get_readers_from_result p = Inr its)
              [page 2 2 [front], page 2 2 [rear]] [[?front], [?rear]]"
    by (simp add: get_readers_from_result_def page_def front_def rear_def item_def reader_of_def
          property_value_def)
  have b: "retrieve_readers ?R 3 (init ?R) =
             (Inr [?front, ?rear],
              (init ?R)\<lparr>sent := map (instances_request ?R (init ?R) ''Lnl_Reader'' 3) [1, 2]\<rparr>)"
    using fetch_all_pages [OF n t2 p2, of "init ?R" "[[?front], [?rear]]" 3 "PInt 2"] s2 g2 c2
    by (simp add: u)
  from a b show ?thesis by simp
qed

text \<open>
  C4 as stated excludes only zero-count queries that are filtered. \<open>retrieve_readers\<close>
  with the panel id \<open>-1\<close> sends no filter, and still stops after one request when the
  first page reports \<open>count = 0\<close>, here with \<open>total_pages = 2\<close>.
\<close>

theorem fetch_all_pages_counterexample:
  "send (stub_env [Response (reply 200 ''OK'' nothing_body), Response (reply 200 ''OK'' rear_body)]) []
     (instances_request (stub_env [Response (reply 200 ''OK'' nothing_body), Response (reply 200 ''OK'' rear_body)])
        (init (stub_env [Response (reply 200 ''OK'' nothing_body), Response (reply 200 ''OK'' rear_body)]))
        ''Lnl_Reader'' (- 1) 1)
     = Response (reply 200 ''OK'' nothing_body)
   \<and> parse_response (stub_env [Response (reply 200 ''OK'' nothing_body), Response (reply 200 ''OK'' rear_body)])
       (reply 200 ''OK'' nothing_body) = Inr (page 2 0 [])
   \<and> py_getitem (page 2 0 []) ''total_pages'' = Inr (PInt 2)
   \<and> fst (retrieve_readers (stub_env [Response (reply 200 ''OK'' nothing_body), Response (reply 200 ''OK'' rear_body)]) (- 1)
        (init (stub_env [Response (reply 200 ''OK'' nothing_body), Response (reply 200 ''OK'' rear_body)])))
     = Inr []
   \<and> map url (sent (snd (retrieve_readers (stub_env [Response (reply 200 ''OK'' nothing_body), Response (reply 200 ''OK'' rear_body)]) (- 1)
        (init (stub_env [Response (reply 200 ''OK'' nothing_body), Response (reply 200 ''OK'' rear_body)])))))
     = [''https://host/api/access/onguard/openaccess/instances?version=1.0&type_name=Lnl_Reader&page_number=1&page_size=20&order_by=name'']"
  by (simp add: retrieve_readers_def request_instances_unfold Let_def in_turn_def stub_loads_nothing
        page_def instances_request_def instances_uri_def get_request_def str_int_1)

end
